theory Spec2Isabelle
  imports Complex_Main "HOL-Library.AList"
begin

section \<open>Values of the Python program\<close>

text \<open>
  The module \<^verbatim>\<open>jupyterlab_omnisci/altair.py\<close> works on Vega-Lite specifications, which
  are JSON values held in Python dicts and lists. A dict is an association list: Python
  dicts keep insertion order, a key that is set anew goes to the end, a key that exists is
  updated in place, and \<^verbatim>\<open>pop\<close> removes it. JSON numbers are rationals (every int and every
  finite float is one); the program never computes with them, it only tests them for zero
  when it asks for their truth value.
\<close>

datatype json =
    JNull
  | JBool bool
  | JNum rat
  | JStr string
  | JList "json list"
  | JDict "(string \<times> json) list"

text \<open>The exceptions the module can raise, by their Python class.\<close>

datatype py_error =
    KeyError
  | TypeError
  | ValueError
  | AttributeError
  | AssertionError
  | NameError
  | RuntimeError

subsection \<open>Dicts\<close>

definition dict_get :: "(string \<times> 'v) list \<Rightarrow> string \<Rightarrow> 'v option" where
  "dict_get d k = map_of d k"

text \<open>\<^verbatim>\<open>k in d\<close>\<close>

definition dict_contains :: "(string \<times> 'v) list \<Rightarrow> string \<Rightarrow> bool" where
  "dict_contains d k = (dict_get d k \<noteq> None)"

text \<open>\<^verbatim>\<open>d[k] = v\<close>\<close>

definition dict_set :: "(string \<times> 'v) list \<Rightarrow> string \<Rightarrow> 'v \<Rightarrow> (string \<times> 'v) list" where
  "dict_set d k v = AList.update k v d"

text \<open>\<^verbatim>\<open>del d[k]\<close> on a key that is present, and the dict that \<^verbatim>\<open>d.pop(k, default)\<close> leaves.\<close>

definition dict_del :: "(string \<times> 'v) list \<Rightarrow> string \<Rightarrow> (string \<times> 'v) list" where
  "dict_del d k = AList.delete k d"

text \<open>\<^verbatim>\<open>d.pop(k, None)\<close>: the value (\<^verbatim>\<open>None\<close> when the key is absent) and the dict left.\<close>

definition dict_pop_default :: "(string \<times> json) list \<Rightarrow> string \<Rightarrow> json \<times> (string \<times> json) list" where
  "dict_pop_default d k = (case dict_get d k of None \<Rightarrow> JNull | Some v \<Rightarrow> v, dict_del d k)"

subsection \<open>Truth values, iteration, subscripts\<close>

text \<open>\<^verbatim>\<open>if x:\<close> for a JSON value \<^verbatim>\<open>x\<close>.\<close>

fun truthy :: "json \<Rightarrow> bool" where
  "truthy JNull = False"
| "truthy (JBool b) = b"
| "truthy (JNum n) = (n \<noteq> 0)"
| "truthy (JStr s) = (s \<noteq> [])"
| "truthy (JList xs) = (xs \<noteq> [])"
| "truthy (JDict d) = (d \<noteq> [])"

text \<open>
  \<^verbatim>\<open>for x in v\<close>: a list gives its elements, a string its characters, a dict its keys;
  \<^verbatim>\<open>None\<close>, a bool and a number are not iterable.
\<close>

fun py_iter :: "json \<Rightarrow> py_error + json list" where
  "py_iter (JList xs) = Inr xs"
| "py_iter (JStr s) = Inr (map (\<lambda>c. JStr [c]) s)"
| "py_iter (JDict d) = Inr (map (\<lambda>kv. JStr (fst kv)) d)"
| "py_iter _ = Inl TypeError"

text \<open>
  \<^verbatim>\<open>v[k]\<close> with a string \<^verbatim>\<open>k\<close>: a dict looks the key up (\<^verbatim>\<open>KeyError\<close> when it is missing);
  a list and a string take integer indices only, and nothing else has subscripts.
\<close>

fun py_getitem :: "json \<Rightarrow> string \<Rightarrow> py_error + json" where
  "py_getitem (JDict d) k = (case dict_get d k of None \<Rightarrow> Inl KeyError | Some v \<Rightarrow> Inr v)"
| "py_getitem _ k = Inl TypeError"

text \<open>
  \<^verbatim>\<open>v.pop(k, None)\<close>: a dict only. \<^verbatim>\<open>list.pop\<close> takes at most one argument
  (\<^verbatim>\<open>TypeError\<close>); the other JSON values have no \<^verbatim>\<open>pop\<close> at all.
\<close>

fun py_pop :: "json \<Rightarrow> string \<Rightarrow> py_error + json \<times> (string \<times> json) list" where
  "py_pop (JDict d) k = Inr (dict_pop_default d k)"
| "py_pop (JList xs) k = Inl TypeError"
| "py_pop _ k = Inl AttributeError"

text \<open>
  \<^verbatim>\<open>a, b = v\<close>: \<^verbatim>\<open>v\<close> is iterated and must give exactly two values
  (\<^verbatim>\<open>ValueError\<close> otherwise).
\<close>

definition unpack2 :: "json \<Rightarrow> py_error + json \<times> json" where
  "unpack2 v =
     (case py_iter v of
        Inl e \<Rightarrow> Inl e
      | Inr xs \<Rightarrow> (case xs of [a, b] \<Rightarrow> Inr (a, b) | _ \<Rightarrow> Inl ValueError))"

section \<open>Ibis expressions\<close>

text \<open>
  Ibis is a library outside the repository. The program never looks inside an expression:
  it only calls methods that build a new expression from an old one. An expression is
  therefore the tree of the calls that built it, over the tables the user started from.
  The one thing the program reads from an expression is \<^verbatim>\<open>expr.columns\<close>; the
  functions below take it as the parameter \<open>cols\<close>.
\<close>

datatype cmp = GE | LE | EQ | GT | LT

datatype expr =
    Table string
  | GetItem expr json
  | Method expr string
  | Name expr json
  | Compare cmp expr json
  | GroupBy expr json
  | Aggregate expr "expr list"
  | Filter expr "expr list"

text \<open>\<^verbatim>\<open>field in expr.columns\<close>: the column names are strings, so only a string can be among them.\<close>

fun in_columns :: "json \<Rightarrow> string list \<Rightarrow> bool" where
  "in_columns (JStr s) cs = (s \<in> set cs)"
| "in_columns _ cs = False"

section \<open>The rewriter\<close>

text \<open>
  \<^verbatim>\<open>
  def translate_op(op: str) -> str:
      return {"mean": "mean", "average": "mean"}.get(op, op)
  \<close>
\<close>

definition translate_op :: "string \<Rightarrow> string" where
  "translate_op op =
     (case dict_get [(''mean'', ''mean''), (''average'', ''mean'')] op of
        None \<Rightarrow> op
      | Some v \<Rightarrow> v)"

text \<open>
  \<^verbatim>\<open>
  def vl_aggregate_to_grouping_expr(expr, a):
      if "field" in a:
          expr = expr[a["field"]]
      op = translate_op(a["op"])
      expr = getattr(expr, op)()
      return expr.name(a["as"])
  \<close>
  When \<^verbatim>\<open>a\<close> is not a dict the function raises \<^verbatim>\<open>TypeError\<close> on every path: \<^verbatim>\<open>in\<close> is
  not defined on \<^verbatim>\<open>None\<close>, bools and numbers, and a list or a string fails at the string
  subscript that follows. \<^verbatim>\<open>getattr\<close> wants a string for the attribute name, and the dict
  lookup inside \<^verbatim>\<open>translate_op\<close> wants a hashable key.
\<close>

fun vl_aggregate_to_grouping_expr :: "expr \<Rightarrow> json \<Rightarrow> py_error + expr" where
  "vl_aggregate_to_grouping_expr e (JDict a) =
     (let e1 = (case dict_get a ''field'' of None \<Rightarrow> e | Some f \<Rightarrow> GetItem e f) in
      case dict_get a ''op'' of
        None \<Rightarrow> Inl KeyError
      | Some (JStr op) \<Rightarrow>
          (case dict_get a ''as'' of
             None \<Rightarrow> Inl KeyError
           | Some n \<Rightarrow> Inr (Name (Method e1 (translate_op op)) n))
      | Some _ \<Rightarrow> Inl TypeError)"
| "vl_aggregate_to_grouping_expr e _ = Inl TypeError"

text \<open>
  The list comprehension over the aggregate records: the first record that raises ends it.
\<close>

fun aggregate_exprs :: "expr \<Rightarrow> json list \<Rightarrow> py_error + expr list" where
  "aggregate_exprs e [] = Inr []"
| "aggregate_exprs e (a # as) =
     (case vl_aggregate_to_grouping_expr e a of
        Inl err \<Rightarrow> Inl err
      | Inr m \<Rightarrow> (case aggregate_exprs e as of Inl err \<Rightarrow> Inl err | Inr ms \<Rightarrow> Inr (m # ms)))"

text \<open>
  The \<^verbatim>\<open>if\<close>/\<^verbatim>\<open>elif\<close> chain over the keys of a field predicate, in the order of the
  source: \<^verbatim>\<open>range\<close>, \<^verbatim>\<open>equal\<close>, \<^verbatim>\<open>gt\<close>, \<^verbatim>\<open>lt\<close>, \<^verbatim>\<open>lte\<close>, \<^verbatim>\<open>gte\<close>. \<open>None\<close> is the
  \<^verbatim>\<open>else\<close> branch: no rule applies. The chain is reached only after \<^verbatim>\<open>filter_['field']\<close>
  has succeeded, which it does on a dict only.
\<close>

fun filter_preds :: "expr \<Rightarrow> json \<Rightarrow> py_error + expr list option" where
  "filter_preds field_expr (JDict f) =
     (case dict_get f ''range'' of
        Some r \<Rightarrow>
          (case unpack2 r of
             Inl err \<Rightarrow> Inl err
           | Inr (mn, mx) \<Rightarrow> Inr (Some [Compare GE field_expr mn, Compare LE field_expr mx]))
      | None \<Rightarrow>
     (case dict_get f ''equal'' of
        Some v \<Rightarrow> Inr (Some [Compare EQ field_expr v])
      | None \<Rightarrow>
     (case dict_get f ''gt'' of
        Some v \<Rightarrow> Inr (Some [Compare GT field_expr v])
      | None \<Rightarrow>
     (case dict_get f ''lt'' of
        Some v \<Rightarrow> Inr (Some [Compare LT field_expr v])
      | None \<Rightarrow>
     (case dict_get f ''lte'' of
        Some v \<Rightarrow> Inr (Some [Compare LE field_expr v])
      | None \<Rightarrow>
     (case dict_get f ''gte'' of
        Some v \<Rightarrow> Inr (Some [Compare GE field_expr v])
      | None \<Rightarrow> Inr None))))))"
| "filter_preds field_expr _ = Inl TypeError"

text \<open>
  The body of the loop of \<^verbatim>\<open>update_spec\<close>, in its three parts. Each part pops its key
  from the transform (the dict is mutated in place; here it is returned) and either
  extends the expression, or puts the key back and gives up on the transform.
  \<^verbatim>\<open>
        aggregate = transform.pop("aggregate", None)
        if aggregate:
                expr = expr.aggregate(
                    [vl_aggregate_to_grouping_expr(original_expr, a) for a in aggregate]
                )
  \<close>
\<close>

definition apply_aggregate ::
  "expr \<Rightarrow> expr \<Rightarrow> (string \<times> json) list \<Rightarrow> py_error + expr \<times> (string \<times> json) list" where
  "apply_aggregate original_expr e t =
     (case dict_pop_default t ''aggregate'' of
        (aggregate, t') \<Rightarrow>
          if truthy aggregate then
            (case py_iter aggregate of
               Inl err \<Rightarrow> Inl err
             | Inr as \<Rightarrow>
                 (case aggregate_exprs original_expr as of
                    Inl err \<Rightarrow> Inl err
                  | Inr ms \<Rightarrow> Inr (Aggregate e ms, t')))
          else Inr (e, t'))"

text \<open>
  \<^verbatim>\<open>
        filter_ = transform.pop("filter", None)
        if filter_:
            field = filter_['field']
            field_expr = original_expr[field]
            if 'range' in filter_: ...
            else:
                # put filter back if we cant transform itt
                transform['filter'] = filter_
                continue
            expr = expr.filter(preds)
  \<close>
\<close>

definition apply_filter ::
  "expr \<Rightarrow> expr \<Rightarrow> (string \<times> json) list \<Rightarrow> py_error + expr \<times> (string \<times> json) list" where
  "apply_filter original_expr e t =
     (case dict_pop_default t ''filter'' of
        (filter_, t') \<Rightarrow>
          if truthy filter_ then
            (case py_getitem filter_ ''field'' of
               Inl err \<Rightarrow> Inl err
             | Inr field \<Rightarrow>
                 (case filter_preds (GetItem original_expr field) filter_ of
                    Inl err \<Rightarrow> Inl err
                  | Inr None \<Rightarrow> Inr (e, dict_set t' ''filter'' filter_)
                  | Inr (Some preds) \<Rightarrow> Inr (Filter e preds, t')))
          else Inr (e, t'))"

text \<open>
  \<^verbatim>\<open>
        groupby = transform.pop("groupby", None)
        if groupby:
            all_fields_exist = all([field in expr.columns for field in groupby])
            if not all_fields_exist:
                transform['groupby'] = groupby
                continue
            expr = expr.groupby(groupby)
  \<close>
  \<open>None\<close> is the \<^verbatim>\<open>continue\<close>.
\<close>

definition apply_groupby :: "(expr \<Rightarrow> string list) \<Rightarrow> expr \<Rightarrow> json \<Rightarrow> py_error + expr option" where
  "apply_groupby cols e groupby =
     (if truthy groupby then
        (case py_iter groupby of
           Inl err \<Rightarrow> Inl err
         | Inr fields \<Rightarrow>
             if list_all (\<lambda>field. in_columns field (cols e)) fields
             then Inr (Some (GroupBy e groupby))
             else Inr None)
      else Inr (Some e))"

definition update_transform ::
  "(expr \<Rightarrow> string list) \<Rightarrow> expr \<Rightarrow> expr \<Rightarrow> json \<Rightarrow> py_error + expr \<times> json" where
  "update_transform cols original_expr e transform =
     (case py_pop transform ''groupby'' of
        Inl err \<Rightarrow> Inl err
      | Inr (groupby, t1) \<Rightarrow>
          (case apply_groupby cols e groupby of
             Inl err \<Rightarrow> Inl err
           | Inr None \<Rightarrow> Inr (e, JDict (dict_set t1 ''groupby'' groupby))
           | Inr (Some e1) \<Rightarrow>
               (case apply_aggregate original_expr e1 t1 of
                  Inl err \<Rightarrow> Inl err
                | Inr (e2, t2) \<Rightarrow>
                    (case apply_filter original_expr e2 t2 of
                       Inl err \<Rightarrow> Inl err
                     | Inr (e3, t3) \<Rightarrow> Inr (e3, JDict t3)))))"

text \<open>
  The loop \<^verbatim>\<open>for transform in spec.get("transform", [])\<close>: the expression is threaded
  through, the transforms are returned as the loop leaves them, and the first exception
  ends the loop.
\<close>

fun update_transforms ::
  "(expr \<Rightarrow> string list) \<Rightarrow> expr \<Rightarrow> expr \<Rightarrow> json list \<Rightarrow> py_error + expr \<times> json list" where
  "update_transforms cols original_expr e [] = Inr (e, [])"
| "update_transforms cols original_expr e (t # ts) =
     (case update_transform cols original_expr e t of
        Inl err \<Rightarrow> Inl err
      | Inr (e1, t1) \<Rightarrow>
          (case update_transforms cols original_expr e1 ts of
             Inl err \<Rightarrow> Inl err
           | Inr (e2, ts1) \<Rightarrow> Inr (e2, t1 # ts1)))"

text \<open>
  \<^verbatim>\<open>
  def update_spec(expr, spec):
      original_expr = expr
      for transform in spec.get("transform", []):
          ...
      # remove empty transforms
      spec['transform'] = [i for i in spec.get('transform', []) if i]
      # remove key if empty
      if not spec['transform']:
          del spec['transform']
      return expr
  \<close>
  The function returns the expression and mutates the spec; the model returns both. When
  the value under \<^verbatim>\<open>transform\<close> is a string or a dict the loop runs over its characters
  or keys, and its body raises on the first of them, so the loop ends without an exception
  only when there is nothing to iterate; the second \<^verbatim>\<open>spec.get\<close> then iterates the same
  empty value.
\<close>

definition update_spec ::
  "(expr \<Rightarrow> string list) \<Rightarrow> expr \<Rightarrow> (string \<times> json) list \<Rightarrow> py_error + expr \<times> (string \<times> json) list" where
  "update_spec cols e spec =
     (case py_iter (case dict_get spec ''transform'' of None \<Rightarrow> JList [] | Some v \<Rightarrow> v) of
        Inl err \<Rightarrow> Inl err
      | Inr ts \<Rightarrow>
          (case update_transforms cols e e ts of
             Inl err \<Rightarrow> Inl err
           | Inr (e1, ts1) \<Rightarrow>
               (let kept = filter truthy ts1;
                    spec1 = dict_set spec ''transform'' (JList kept)
                in Inr (e1, if kept = [] then dict_del spec1 ''transform'' else spec1))))"

text \<open>
  \<^verbatim>\<open>
  def set_data(spec, data):
      if "spec" in spec:
          spec["spec"]["data"] = data
      else:
          spec["data"] = data
  \<close>
  Item assignment with a string key works on a dict only.
\<close>

definition set_data :: "(string \<times> json) list \<Rightarrow> json \<Rightarrow> py_error + (string \<times> json) list" where
  "set_data spec data =
     (case dict_get spec ''spec'' of
        None \<Rightarrow> Inr (dict_set spec ''data'' data)
      | Some (JDict sub) \<Rightarrow> Inr (dict_set spec ''spec'' (JDict (dict_set sub ''data'' data)))
      | Some _ \<Rightarrow> Inl TypeError)"

section \<open>The module's globals and the notebook around it\<close>

text \<open>
  \<^verbatim>\<open>display_type(display_data)\<close>: the four display classes the renderer uses and what it
  hands them (a spec, a spec with a connection, or a text).
\<close>

record connection =
  host :: string
  protocol :: string
  port :: string
  user :: string
  db_name :: string
  password :: string

datatype display_type = VegaLite | VegaLiteOmniSci | CompatJSON | Code

datatype display_data =
    DSpec "(string \<times> json) list"
  | DSpecConn "(string \<times> json) list" connection
  | DText string
  | DNone

datatype display_obj = Display display_type display_data

text \<open>
  The callback that \<^verbatim>\<open>ibis_renderer\<close> hands to \<^verbatim>\<open>extract_spec\<close> is
  \<^verbatim>\<open>lambda s: display_id.update(to_display(s))\<close>. It is kept as the values it closes over:
  the display handle and, for \<^verbatim>\<open>to_display\<close>, the renderer's \<^verbatim>\<open>type\<close>, \<^verbatim>\<open>compile\<close>,
  \<^verbatim>\<open>expr\<close> and \<^verbatim>\<open>conn\<close> (which is bound for the type \<^verbatim>\<open>vl-omnisci\<close> only).
\<close>

record callback =
  cb_display_id :: nat
  cb_display_type :: display_type
  cb_type :: string
  cb_compile :: bool
  cb_expr :: expr
  cb_conn :: "connection option"

record comm =
  target_name :: string
  comm_data :: "(string \<times> json) list"
  on_msg :: "callback option"

text \<open>
  The state: the module globals \<^verbatim>\<open>_i\<close> (here \<open>next_i\<close>) and \<^verbatim>\<open>_name_to_ibis\<close>, the
  outputs displayed so far (a display handle is the position of its output) and the comms
  opened so far.
\<close>

record kernel =
  next_i :: nat
  name_to_ibis :: "(string \<times> expr) list"
  displays :: "display_obj list"
  comms :: "comm list"

definition init_kernel :: kernel where
  "init_kernel = \<lparr>next_i = 0, name_to_ibis = [], displays = [], comms = []\<rparr>"

text \<open>
  What the program asks of Ibis beyond building expressions: \<^verbatim>\<open>expr.columns\<close>,
  \<^verbatim>\<open>expr.schema()\<close> (column names with their types), \<^verbatim>\<open>expr.compile()\<close> (SQL text),
  \<^verbatim>\<open>DEFAULT_TRANSFORMER(expr.execute())\<close> (the data of the result as altair's
  \<^verbatim>\<open>to_json\<close> writes it) and \<^verbatim>\<open>get_client(expr)\<close>. All are parameters.
\<close>

record ibis_api =
  api_columns :: "expr \<Rightarrow> string list"
  api_schema :: "expr \<Rightarrow> (string \<times> string) list"
  api_compile :: "expr \<Rightarrow> string"
  api_execute :: "expr \<Rightarrow> json"
  api_client :: "expr \<Rightarrow> connection"

subsection \<open>Names for expressions\<close>

text \<open>The decimal digits of \<^verbatim>\<open>_i\<close>, as the f-string \<^verbatim>\<open>f"ibis_{_i}"\<close> writes them.\<close>

definition digit_char :: "nat \<Rightarrow> char" where
  "digit_char d = char_of (48 + d)"

fun str_nat :: "nat \<Rightarrow> string" where
  "str_nat n = (if n < 10 then [digit_char n] else str_nat (n div 10) @ [digit_char (n mod 10)])"

declare str_nat.simps [simp del]

text \<open>Reading the digits back, used to show that different numbers give different names.\<close>

definition nat_of_digits :: "string \<Rightarrow> nat" where
  "nat_of_digits cs = foldl (\<lambda>acc c. 10 * acc + (of_char c - 48)) 0 cs"

text \<open>
  What is passed as \<^verbatim>\<open>data\<close>: \<^verbatim>\<open>None\<close>, an Ibis expression, a pandas dataframe, or
  something else. Of a dataframe the model keeps the column names, the column types, the
  rows, and the attribute \<^verbatim>\<open>ibis\<close> when one was set on it.
\<close>

record dataframe =
  df_columns :: "string list"
  df_dtypes :: "(string \<times> string) list"
  df_rows :: "json list list"
  df_ibis :: "expr option"

datatype py_value =
    PyNone
  | PyExpr expr
  | PyDataFrame dataframe
  | PyOther string

text \<open>
  \<^verbatim>\<open>
  def ibis_transformation(data):
      assert isinstance(data, pandas.DataFrame)
      global _i
      name = f"ibis_{_i}"
      _i += 1
      _name_to_ibis[name] = data.ibis
      return {"name": name}
  \<close>
  The counter is incremented before \<^verbatim>\<open>data.ibis\<close> is read, so a dataframe with no such
  attribute raises with the counter already moved on.
\<close>

definition ibis_transformation :: "kernel \<Rightarrow> py_value \<Rightarrow> (py_error + json) \<times> kernel" where
  "ibis_transformation s data =
     (case data of
        PyDataFrame df \<Rightarrow>
          (let name = ''ibis_'' @ str_nat (next_i s);
               s1 = s\<lparr>next_i := next_i s + 1\<rparr>
           in case df_ibis df of
                None \<Rightarrow> (Inl AttributeError, s1)
              | Some e \<Rightarrow>
                  (Inr (JDict [(''name'', JStr name)]),
                   s1\<lparr>name_to_ibis := dict_set (name_to_ibis s1) name e\<rparr>))
      | _ \<Rightarrow> (Inl AssertionError, s))"

text \<open>
  \<^verbatim>\<open>
  def retrieve_expr(spec):
      if "spec" in spec:
          spec = spec["spec"]
      try:
          return _name_to_ibis.pop(spec["data"]["name"])
      except KeyError:
          raise RuntimeError(...)
  \<close>
  Every \<^verbatim>\<open>KeyError\<close> inside the \<^verbatim>\<open>try\<close> becomes the \<^verbatim>\<open>RuntimeError\<close>: a missing
  \<^verbatim>\<open>data\<close> or \<^verbatim>\<open>name\<close> key as well as a name that is not in the dictionary. A name that is
  a list or a dict is not hashable (\<^verbatim>\<open>TypeError\<close>); any other name that is not a string is
  simply not a key of the dictionary.
\<close>

definition pop_name :: "kernel \<Rightarrow> json \<Rightarrow> (py_error + expr) \<times> kernel" where
  "pop_name s name =
     (case name of
        JStr n \<Rightarrow>
          (case dict_get (name_to_ibis s) n of
             None \<Rightarrow> (Inl RuntimeError, s)
           | Some e \<Rightarrow> (Inr e, s\<lparr>name_to_ibis := dict_del (name_to_ibis s) n\<rparr>))
      | JList xs \<Rightarrow> (Inl TypeError, s)
      | JDict d \<Rightarrow> (Inl TypeError, s)
      | _ \<Rightarrow> (Inl RuntimeError, s))"

definition retrieve_expr :: "kernel \<Rightarrow> (string \<times> json) list \<Rightarrow> (py_error + expr) \<times> kernel" where
  "retrieve_expr s spec =
     (let spec1 = (case dict_get spec ''spec'' of None \<Rightarrow> JDict spec | Some sub \<Rightarrow> sub) in
      case py_getitem spec1 ''data'' of
        Inl KeyError \<Rightarrow> (Inl RuntimeError, s)
      | Inl err \<Rightarrow> (Inl err, s)
      | Inr data \<Rightarrow>
          (case py_getitem data ''name'' of
             Inl KeyError \<Rightarrow> (Inl RuntimeError, s)
           | Inl err \<Rightarrow> (Inl err, s)
           | Inr name \<Rightarrow> pop_name s name))"

section \<open>The patched chart constructor\<close>

text \<open>
  Modelled from the spec: \<^verbatim>\<open>pandas.DataFrame(columns=...)\<close> and Ibis's
  \<^verbatim>\<open>Schema.apply_to\<close> are library code outside the repository. The first makes a
  dataframe with the given column names and no rows; the second gives the dataframe the
  column types of the schema and keeps its rows.
  \<^verbatim>\<open>
  def empty(expr):
      return expr.schema().apply_to(pandas.DataFrame(columns=expr.columns))
  \<close>
\<close>

definition pandas_DataFrame :: "string list \<Rightarrow> dataframe" where
  "pandas_DataFrame cs =
     \<lparr>df_columns = cs, df_dtypes = map (\<lambda>c. (c, ''object'')) cs, df_rows = [], df_ibis = None\<rparr>"

definition schema_apply_to :: "(string \<times> string) list \<Rightarrow> dataframe \<Rightarrow> dataframe" where
  "schema_apply_to sch df = df\<lparr>df_dtypes := sch\<rparr>"

definition empty_df :: "ibis_api \<Rightarrow> expr \<Rightarrow> dataframe" where
  "empty_df api e = schema_apply_to (api_schema api e) (pandas_DataFrame (api_columns api e))"

text \<open>
  A Python call: the positional arguments and the keyword arguments.
\<close>

record call =
  pos_args :: "py_value list"
  kw_args :: "(string \<times> py_value) list"

text \<open>
  \<^verbatim>\<open>
  def updated_chart_init(self, data=None, *args, **kwargs):
      if data is not None and isinstance(data, ibis.Expr):
          expr = data
          data = empty(expr)
          data.ibis = expr
      return original_chart_init(self, data=data, *args, **kwargs)
  \<close>
  The result is the call made to the original constructor: \<^verbatim>\<open>self\<close> and \<^verbatim>\<open>*args\<close> are its
  positional arguments, \<^verbatim>\<open>data\<close> and \<^verbatim>\<open>**kwargs\<close> its keyword arguments.
\<close>

definition updated_chart_init ::
  "ibis_api \<Rightarrow> py_value \<Rightarrow> py_value \<Rightarrow> py_value list \<Rightarrow> (string \<times> py_value) list \<Rightarrow> call" where
  "updated_chart_init api self data args kwargs =
     (let data1 = (case data of
                     PyExpr e \<Rightarrow> PyDataFrame ((empty_df api e)\<lparr>df_ibis := Some e\<rparr>)
                   | _ \<Rightarrow> data)
      in \<lparr>pos_args = self # args, kw_args = (''data'', data1) # kwargs\<rparr>)"

text \<open>
  How Python binds a call \<^verbatim>\<open>Chart(*pos, **kw)\<close> to the parameters
  \<^verbatim>\<open>(self, data=None, *args, **kwargs)\<close> of the patched constructor, which then runs:
  the first positional argument after \<^verbatim>\<open>self\<close> is \<^verbatim>\<open>data\<close>, the others are \<^verbatim>\<open>args\<close>;
  with no positional argument \<^verbatim>\<open>data\<close> is the keyword of that name, or the default.
\<close>

definition patched_chart_init :: "ibis_api \<Rightarrow> call \<Rightarrow> py_error + call" where
  "patched_chart_init api c =
     (case pos_args c of
        [] \<Rightarrow> Inl TypeError
      | [self] \<Rightarrow>
          Inr (updated_chart_init api self
                 (case dict_get (kw_args c) ''data'' of None \<Rightarrow> PyNone | Some d \<Rightarrow> d)
                 [] (dict_del (kw_args c) ''data''))
      | self # data # args \<Rightarrow>
          if dict_contains (kw_args c) ''data'' then Inl TypeError
          else Inr (updated_chart_init api self data args (kw_args c)))"

text \<open>
  How Python binds a call to a function whose parameters are the names \<open>params\<close> followed
  by \<^verbatim>\<open>**kwargs\<close>, as those of \<^verbatim>\<open>altair.Chart.__init__\<close> are: positional arguments fill
  the parameters in order, and a keyword that names a parameter already filled is a
  \<^verbatim>\<open>TypeError\<close> ("got multiple values for argument").
\<close>

fun bind_positional :: "string list \<Rightarrow> py_value list \<Rightarrow> py_error + (string \<times> py_value) list" where
  "bind_positional ps [] = Inr []"
| "bind_positional [] (v # vs) = Inl TypeError"
| "bind_positional (p # ps) (v # vs) =
     (case bind_positional ps vs of Inl err \<Rightarrow> Inl err | Inr b \<Rightarrow> Inr ((p, v) # b))"

definition bind_call :: "string list \<Rightarrow> call \<Rightarrow> py_error + (string \<times> py_value) list" where
  "bind_call params c =
     (case bind_positional params (pos_args c) of
        Inl err \<Rightarrow> Inl err
      | Inr b \<Rightarrow>
          if list_ex (\<lambda>k. k \<in> set (map fst b)) (map fst (kw_args c)) then Inl TypeError
          else Inr (b @ kw_args c))"

section \<open>The renderer\<close>

definition EMPTY_SPEC :: "(string \<times> json) list" where
  "EMPTY_SPEC = [(''data'', JDict [(''values'', JList [])]), (''mark'', JStr ''bar'')]"

definition COMM_ID :: string where
  "COMM_ID = ''extract-vega-lite''"

datatype render_result = MimeBundle json | Formatted display_obj

text \<open>
  The \<^verbatim>\<open>assert\<close> on \<^verbatim>\<open>type\<close> and the chain that picks the display class, the placeholder
  and, for \<^verbatim>\<open>vl-omnisci\<close>, the connection. \<open>None\<close> is the failed assertion.
\<close>

definition placeholder ::
  "ibis_api \<Rightarrow> expr \<Rightarrow> string \<Rightarrow> (display_type \<times> display_data \<times> connection option) option" where
  "placeholder api e type =
     (if type = ''vl'' then Some (VegaLite, DSpec EMPTY_SPEC, None)
      else if type = ''vl-omnisci'' then
        Some (VegaLiteOmniSci, DSpecConn EMPTY_SPEC (api_client api e), Some (api_client api e))
      else if type = ''json'' then
        Some (CompatJSON, DSpec [(''_'', JStr ''Waiting for transformed spec...'')], None)
      else if type = ''sql'' then Some (Code, DText ''Waiting for transformed spec...'', None)
      else None)"

text \<open>
  \<^verbatim>\<open>
    def to_data(spec, expr=expr):
        if compile:
            expr = update_spec(expr, spec)
        if type == "vl":
            set_data(spec, DEFAULT_TRANSFORMER(expr.execute()))
            return spec
        elif type == "vl-omnisci":
            set_data(spec, {"sql": expr.compile()})
            return [spec, conn]
        elif type == "json":
            return spec
        elif type == "sql":
            return expr.compile()
  \<close>
  With any other \<^verbatim>\<open>type\<close> the function falls off its end and returns \<^verbatim>\<open>None\<close>; the
  renderer's \<^verbatim>\<open>assert\<close> keeps such a type from getting here. The name \<^verbatim>\<open>conn\<close> is bound
  in the renderer for \<^verbatim>\<open>vl-omnisci\<close> only, the one branch that reads it.
\<close>

definition to_data ::
  "ibis_api \<Rightarrow> string \<Rightarrow> bool \<Rightarrow> expr \<Rightarrow> connection option \<Rightarrow> (string \<times> json) list
     \<Rightarrow> py_error + display_data" where
  "to_data api type compile e conn spec =
     (case (if compile then update_spec (api_columns api) e spec else Inr (e, spec)) of
        Inl err \<Rightarrow> Inl err
      | Inr (e1, spec1) \<Rightarrow>
          if type = ''vl'' then
            (case set_data spec1 (api_execute api e1) of
               Inl err \<Rightarrow> Inl err
             | Inr spec2 \<Rightarrow> Inr (DSpec spec2))
          else if type = ''vl-omnisci'' then
            (case set_data spec1 (JDict [(''sql'', JStr (api_compile api e1))]) of
               Inl err \<Rightarrow> Inl err
             | Inr spec2 \<Rightarrow>
                 (case conn of None \<Rightarrow> Inl NameError | Some c \<Rightarrow> Inr (DSpecConn spec2 c)))
          else if type = ''json'' then Inr (DSpec spec1)
          else if type = ''sql'' then Inr (DText (api_compile api e1))
          else Inr DNone)"

text \<open>\<^verbatim>\<open>def to_display(spec): return display_type(to_data(spec))\<close>\<close>

definition to_display :: "ibis_api \<Rightarrow> callback \<Rightarrow> (string \<times> json) list \<Rightarrow> py_error + display_obj" where
  "to_display api cb spec =
     (case to_data api (cb_type cb) (cb_compile cb) (cb_expr cb) (cb_conn cb) spec of
        Inl err \<Rightarrow> Inl err
      | Inr d \<Rightarrow> Inr (Display (cb_display_type cb) d))"

text \<open>
  \<^verbatim>\<open>
  def extract_spec(spec, callback):
      my_comm = ipykernel.comm.Comm(target_name=COMM_ID, data=spec)
      @my_comm.on_msg
      def _recv(msg):
          callback(msg["content"]["data"])
  \<close>
  Opening the comm sends the spec to the frontend; nothing else happens until a message
  comes back.
\<close>

definition extract_spec :: "kernel \<Rightarrow> (string \<times> json) list \<Rightarrow> callback \<Rightarrow> kernel" where
  "extract_spec s spec cb =
     s\<lparr>comms := comms s @ [\<lparr>target_name = COMM_ID, comm_data = spec, on_msg = Some cb\<rparr>]\<rparr>"

text \<open>
  The frontend answers on comm \<open>n\<close> with the spec \<open>payload\<close> (the \<^verbatim>\<open>data\<close> of the
  message's \<^verbatim>\<open>content\<close>): \<^verbatim>\<open>_recv\<close> runs the callback, which replaces the output of its
  display handle. An exception in \<^verbatim>\<open>to_display\<close> leaves the output as it was.
\<close>

definition recv ::
  "ibis_api \<Rightarrow> kernel \<Rightarrow> nat \<Rightarrow> (string \<times> json) list \<Rightarrow> (py_error + unit) \<times> kernel" where
  "recv api s n payload =
     (if n < length (comms s) then
        (case on_msg (comms s ! n) of
           None \<Rightarrow> (Inr (), s)
         | Some cb \<Rightarrow>
             (case to_display api cb payload of
                Inl err \<Rightarrow> (Inl err, s)
              | Inr obj \<Rightarrow> (Inr (), s\<lparr>displays := (displays s)[cb_display_id cb := obj]\<rparr>)))
      else (Inr (), s))"

text \<open>
  \<^verbatim>\<open>
  def ibis_renderer(spec, type="vl", extract=True, compile=True):
      expr = retrieve_expr(spec)
      assert type in ("vl", "vl-omnisci", "json", "sql")
      ...
      if extract:
          display_id = display(display_type(display_data), display_id=True)
          extract_spec(spec, lambda s: display_id.update(to_display(s)))
          return {"text/plain": ""}
      return get_ipython().display_formatter.format(to_display(spec))[0]
  \<close>
\<close>

definition ibis_renderer ::
  "ibis_api \<Rightarrow> kernel \<Rightarrow> (string \<times> json) list \<Rightarrow> string \<Rightarrow> bool \<Rightarrow> bool
     \<Rightarrow> (py_error + render_result) \<times> kernel" where
  "ibis_renderer api s spec type extract compile =
     (case retrieve_expr s spec of
        (Inl err, s1) \<Rightarrow> (Inl err, s1)
      | (Inr e, s1) \<Rightarrow>
          (case placeholder api e type of
             None \<Rightarrow> (Inl AssertionError, s1)
           | Some (display_type, display_data, conn) \<Rightarrow>
               (let cb = \<lparr>cb_display_id = length (displays s1), cb_display_type = display_type,
                          cb_type = type, cb_compile = compile, cb_expr = e, cb_conn = conn\<rparr>
                in if extract then
                     (let s2 = s1\<lparr>displays := displays s1 @ [Display display_type display_data]\<rparr>
                      in (Inr (MimeBundle (JDict [(''text/plain'', JStr [])])),
                          extract_spec s2 spec cb))
                   else
                     (case to_display api cb spec of
                        Inl err \<Rightarrow> (Inl err, s1)
                      | Inr obj \<Rightarrow> (Inr (Formatted obj), s1)))))"

text \<open>
  The states the module can be in: from the start, any number of calls of
  \<^verbatim>\<open>ibis_transformation\<close>, \<^verbatim>\<open>retrieve_expr\<close> and \<^verbatim>\<open>ibis_renderer\<close>, and messages from
  the frontend, with any arguments. Nothing else writes the globals.
\<close>

inductive reachable :: "ibis_api \<Rightarrow> kernel \<Rightarrow> bool" for api :: ibis_api where
  reach_init: "reachable api init_kernel"
| reach_transformation: "reachable api s \<Longrightarrow> reachable api (snd (ibis_transformation s data))"
| reach_retrieve: "reachable api s \<Longrightarrow> reachable api (snd (retrieve_expr s spec))"
| reach_renderer:
    "reachable api s \<Longrightarrow> reachable api (snd (ibis_renderer api s spec type extract compile))"
| reach_recv: "reachable api s \<Longrightarrow> reachable api (snd (recv api s n payload))"

section \<open>The rewrite rules as the specification words them\<close>















section \<open>An invariant of the globals\<close>

text \<open>
  Every key of \<^verbatim>\<open>_name_to_ibis\<close> is a name that \<^verbatim>\<open>ibis_transformation\<close> generated from
  a value of the counter below the present one.
\<close>

definition names_below :: "kernel \<Rightarrow> bool" where
  "names_below s \<longleftrightarrow>
     (\<forall>k. dict_contains (name_to_ibis s) k \<longrightarrow> (\<exists>j<next_i s. k = ''ibis_'' @ str_nat j))"

section \<open>Dicts and the parts of the loop body\<close>

lemma dict_get_set: "dict_get (dict_set d k v) k' = (if k' = k then Some v else dict_get d k')"
  by (simp add: dict_get_def dict_set_def update_conv')

lemma dict_get_del: "dict_get (dict_del d k) k' = (if k' = k then None else dict_get d k')"
  by (simp add: dict_get_def dict_del_def delete_conv')

lemma dict_del_set_same: "dict_del (dict_set d k v) k = dict_del d k"
  by (simp add: dict_del_def dict_set_def delete_update_same)

lemma dict_set_nonempty: "dict_set d k v \<noteq> []"
  by (cases d) (auto simp: dict_set_def)

lemma dict_contains_set: "dict_contains (dict_set d k v) k' = (k' = k \<or> dict_contains d k')"
  by (simp add: dict_contains_def dict_get_set)

lemma dict_contains_del: "dict_contains (dict_del d k) k' = (k' \<noteq> k \<and> dict_contains d k')"
  by (simp add: dict_contains_def dict_get_del)

lemma apply_aggregate_dict:
  "apply_aggregate original e t = Inr (e', t') \<Longrightarrow> t' = dict_del t ''aggregate''"
  by (auto simp: apply_aggregate_def dict_pop_default_def split: if_splits sum.splits)

lemma apply_filter_dict:
  assumes "apply_filter original e t = Inr (e', t')"
  shows "t' = dict_del t ''filter''
         \<or> (\<exists>f. dict_get t ''filter'' = Some f \<and> e' = e
                 \<and> t' = dict_set (dict_del t ''filter'') ''filter'' f)"
  using assms
  by (auto simp: apply_filter_def dict_pop_default_def
           split: if_splits sum.splits option.splits)

lemma apply_filter_other_keys:
  assumes "apply_filter original e t = Inr (e', t')" and "k \<noteq> ''filter''"
  shows "dict_get t' k = dict_get t k"
  using apply_filter_dict [OF assms(1)] assms(2)
  by (auto simp: dict_get_set dict_get_del)

lemma update_transform_other_keys:
  assumes "update_transform cols original e t = Inr (e', t')"
  shows "\<exists>d d'. t = JDict d \<and> t' = JDict d'
           \<and> (\<forall>k. k \<noteq> ''groupby'' \<and> k \<noteq> ''aggregate'' \<and> k \<noteq> ''filter''
                  \<longrightarrow> dict_get d' k = dict_get d k)"
proof (cases t)
  case (JDict d)
  obtain g where pop: "py_pop t ''groupby'' = Inr (g, dict_del d ''groupby'')"
    by (simp add: JDict dict_pop_default_def)
  show ?thesis
  proof (cases "apply_groupby cols e g")
    case (Inl err)
    with assms pop show ?thesis by (simp add: update_transform_def)
  next
    case (Inr r)
    show ?thesis
    proof (cases r)
      case None
      with assms pop Inr have "t' = JDict (dict_set (dict_del d ''groupby'') ''groupby'' g)"
        by (simp add: update_transform_def)
      then show ?thesis by (simp add: JDict dict_get_set dict_get_del)
    next
      case (Some e1)
      from assms pop Inr Some obtain e2 t2 where
        agg: "apply_aggregate original e1 (dict_del d ''groupby'') = Inr (e2, t2)"
        and fil: "apply_filter original e2 t2 = Inr (e', case t' of JDict d' \<Rightarrow> d' | _ \<Rightarrow> [])"
        and t': "\<exists>d'. t' = JDict d'"
        by (auto simp: update_transform_def split: sum.splits)
      from t' obtain d' where d': "t' = JDict d'" by blast
      have t2: "t2 = dict_del (dict_del d ''groupby'') ''aggregate''"
        using apply_aggregate_dict [OF agg] .
      have "\<forall>k. k \<noteq> ''filter'' \<longrightarrow> dict_get d' k = dict_get t2 k"
        using apply_filter_other_keys [OF fil] by (simp add: d')
      then show ?thesis by (simp add: JDict d' t2 dict_get_del)
    qed
  qed
qed (use assms in \<open>simp_all add: update_transform_def\<close>)

lemma update_transforms_length:
  "update_transforms cols original e ts = Inr (e', ts') \<Longrightarrow> length ts' = length ts"
  by (induction ts arbitrary: e ts') (auto split: sum.splits)

lemma update_transforms_other_keys:
  assumes "update_transforms cols original e ts = Inr (e', ts')" and "i < length ts"
  shows "\<exists>d d'. ts ! i = JDict d \<and> ts' ! i = JDict d'
           \<and> (\<forall>k. k \<noteq> ''groupby'' \<and> k \<noteq> ''aggregate'' \<and> k \<noteq> ''filter''
                  \<longrightarrow> dict_get d' k = dict_get d k)"
  using assms
proof (induction ts arbitrary: e ts' i)
  case Nil
  then show ?case by simp
next
  case (Cons t ts)
  from Cons.prems(1) obtain e1 t1 ts1 where
    step: "update_transform cols original e t = Inr (e1, t1)"
    and rest: "update_transforms cols original e1 ts = Inr (e', ts1)"
    and ts': "ts' = t1 # ts1"
    by (auto split: sum.splits)
  show ?case
  proof (cases i)
    case 0
    with update_transform_other_keys [OF step] ts' show ?thesis by simp
  next
    case (Suc j)
    with Cons.prems(2) have "j < length ts" by simp
    from Cons.IH [OF rest this] Suc ts' show ?thesis by simp
  qed
qed

lemma update_transforms_dicts:
  "update_transforms cols original e ts = Inr (e', ts') \<Longrightarrow> t \<in> set ts' \<Longrightarrow> \<exists>d. t = JDict d"
proof (induction ts arbitrary: e ts')
  case Nil
  then show ?case by simp
next
  case (Cons a ts)
  from Cons.prems(1) obtain e1 t1 ts1 where
    step: "update_transform cols original e a = Inr (e1, t1)"
    and rest: "update_transforms cols original e1 ts = Inr (e', ts1)"
    and ts': "ts' = t1 # ts1"
    by (auto split: sum.splits)
  from update_transform_other_keys [OF step] obtain d1 where "t1 = JDict d1" by blast
  with Cons.IH [OF rest] Cons.prems(2) ts' show ?case by auto
qed

lemma update_spec_result:
  assumes "update_spec cols e spec = Inr (e', spec')"
  obtains ts ts' where
    "py_iter (case dict_get spec ''transform'' of None \<Rightarrow> JList [] | Some v \<Rightarrow> v) = Inr ts"
    and "update_transforms cols e e ts = Inr (e', ts')"
    and "spec' = (if filter truthy ts' = [] then dict_del spec ''transform''
                  else dict_set spec ''transform'' (JList (filter truthy ts')))"
  using assms
  by (auto simp: update_spec_def Let_def dict_del_set_same split: sum.splits if_splits)

section \<open>The rewriter leaves the rest of the spec alone\<close>

text \<open>
  C6. When \<^verbatim>\<open>update_spec\<close> returns, every key of the spec other than \<^verbatim>\<open>transform\<close> has
  the value it had; every transform entry has become an entry that agrees with it on
  every key other than \<^verbatim>\<open>groupby\<close>, \<^verbatim>\<open>aggregate\<close> and \<^verbatim>\<open>filter\<close>; and the new value of
  \<^verbatim>\<open>transform\<close> is the list of those entries that are not empty, in their order (with no
  such entry the key is not there).
\<close>

theorem update_spec_frame:
  assumes "update_spec cols e spec = Inr (e', spec')"
  shows "(\<forall>k. k \<noteq> ''transform'' \<longrightarrow> dict_get spec' k = dict_get spec k)
    \<and> (\<exists>ts ts'.
          py_iter (case dict_get spec ''transform'' of None \<Rightarrow> JList [] | Some v \<Rightarrow> v) = Inr ts
          \<and> length ts' = length ts
          \<and> (\<forall>i<length ts. \<exists>d d'. ts ! i = JDict d \<and> ts' ! i = JDict d'
                \<and> (\<forall>k. k \<noteq> ''groupby'' \<and> k \<noteq> ''aggregate'' \<and> k \<noteq> ''filter''
                       \<longrightarrow> dict_get d' k = dict_get d k))
          \<and> dict_get spec' ''transform'' =
              (if filter truthy ts' = [] then None else Some (JList (filter truthy ts'))))"
proof -
  from assms obtain ts ts' where
    it: "py_iter (case dict_get spec ''transform'' of None \<Rightarrow> JList [] | Some v \<Rightarrow> v) = Inr ts"
    and loop: "update_transforms cols e e ts = Inr (e', ts')"
    and spec': "spec' = (if filter truthy ts' = [] then dict_del spec ''transform''
                         else dict_set spec ''transform'' (JList (filter truthy ts')))"
    by (rule update_spec_result)
  have others: "\<forall>k. k \<noteq> ''transform'' \<longrightarrow> dict_get spec' k = dict_get spec k"
    by (simp add: spec' dict_get_set dict_get_del)
  have len: "length ts' = length ts"
    using loop by (rule update_transforms_length)
  have entries: "\<forall>i<length ts. \<exists>d d'. ts ! i = JDict d \<and> ts' ! i = JDict d'
                \<and> (\<forall>k. k \<noteq> ''groupby'' \<and> k \<noteq> ''aggregate'' \<and> k \<noteq> ''filter''
                       \<longrightarrow> dict_get d' k = dict_get d k)"
    using update_transforms_other_keys [OF loop] by blast
  have key: "dict_get spec' ''transform'' =
              (if filter truthy ts' = [] then None else Some (JList (filter truthy ts')))"
    by (simp add: spec' dict_get_set dict_get_del)
  from others it len entries key show ?thesis by blast
qed

theorem update_spec_frame_witness:
  "update_spec (\<lambda>_. [''a'']) (Table ''t'')
     [(''mark'', JStr ''bar''),
      (''transform'', JList [JDict [(''filter'', JDict [(''field'', JStr ''a''), (''gt'', JNum 3)])],
                             JDict [(''calculate'', JStr ''datum.a * 2''), (''as'', JStr ''b'')]])]
   = Inr (Filter (Table ''t'') [Compare GT (GetItem (Table ''t'') (JStr ''a'')) (JNum 3)],
          [(''mark'', JStr ''bar''),
           (''transform'', JList [JDict [(''calculate'', JStr ''datum.a * 2''), (''as'', JStr ''b'')]])])
   \<and> dict_get [(''mark'', JStr ''bar''),
           (''transform'', JList [JDict [(''calculate'', JStr ''datum.a * 2''), (''as'', JStr ''b'')]])]
        ''mark''
      = dict_get [(''mark'', JStr ''bar''),
      (''transform'', JList [JDict [(''filter'', JDict [(''field'', JStr ''a''), (''gt'', JNum 3)])],
                             JDict [(''calculate'', JStr ''datum.a * 2''), (''as'', JStr ''b'')]])]
        ''mark''"
proof -
  have run: "update_spec (\<lambda>_. [''a'']) (Table ''t'')
     [(''mark'', JStr ''bar''),
      (''transform'', JList [JDict [(''filter'', JDict [(''field'', JStr ''a''), (''gt'', JNum 3)])],
                             JDict [(''calculate'', JStr ''datum.a * 2''), (''as'', JStr ''b'')]])]
   = Inr (Filter (Table ''t'') [Compare GT (GetItem (Table ''t'') (JStr ''a'')) (JNum 3)],
          [(''mark'', JStr ''bar''),
           (''transform'', JList [JDict [(''calculate'', JStr ''datum.a * 2''), (''as'', JStr ''b'')]])])"
    by code_simp
  from update_spec_frame [OF run] have
    "dict_get [(''mark'', JStr ''bar''),
           (''transform'', JList [JDict [(''calculate'', JStr ''datum.a * 2''), (''as'', JStr ''b'')]])]
        ''mark''
      = dict_get [(''mark'', JStr ''bar''),
      (''transform'', JList [JDict [(''filter'', JDict [(''field'', JStr ''a''), (''gt'', JNum 3)])],
                             JDict [(''calculate'', JStr ''datum.a * 2''), (''as'', JStr ''b'')]])]
        ''mark''"
    by simp
  with run show ?thesis by simp
qed

section \<open>The operator names\<close>

text \<open>
  C10. \<^verbatim>\<open>translate_op\<close> sends \<^verbatim>\<open>average\<close> to \<^verbatim>\<open>mean\<close> and every other string,
  \<^verbatim>\<open>mean\<close> among them, to itself; applying it twice is the same as applying it once.
\<close>

theorem translate_op_idempotent:
  "translate_op ''average'' = ''mean''
   \<and> (\<forall>op. op \<noteq> ''average'' \<longrightarrow> translate_op op = op)
   \<and> (\<forall>op. translate_op (translate_op op) = translate_op op)"
  by (simp add: translate_op_def dict_get_def)

theorem translate_op_idempotent_witness:
  "''mean'' \<noteq> ''average'' \<and> translate_op ''mean'' = ''mean''
   \<and> translate_op ''sum'' = ''sum''
   \<and> translate_op (translate_op ''average'') = translate_op ''average''"
  using translate_op_idempotent by simp

section \<open>The transform key after the rewrite\<close>

text \<open>
  C9. When \<^verbatim>\<open>update_spec\<close> returns, the spec has a \<^verbatim>\<open>transform\<close> key exactly when one of
  the transform entries, as the loop left them, still has a key; its value is then the list
  of the entries that still have one. When every entry has been emptied there is no
  \<^verbatim>\<open>transform\<close> key.
\<close>

theorem transform_key_iff_entry_left:
  assumes "update_spec cols e spec = Inr (e', spec')"
  shows "\<exists>ts ts'.
           py_iter (case dict_get spec ''transform'' of None \<Rightarrow> JList [] | Some v \<Rightarrow> v) = Inr ts
           \<and> update_transforms cols e e ts = Inr (e', ts')
           \<and> (dict_contains spec' ''transform'' \<longleftrightarrow> (\<exists>d. JDict d \<in> set ts' \<and> d \<noteq> []))
           \<and> (dict_contains spec' ''transform'' \<longrightarrow>
                dict_get spec' ''transform'' = Some (JList (filter truthy ts')))
           \<and> ((\<forall>t\<in>set ts'. t = JDict []) \<longrightarrow> \<not> dict_contains spec' ''transform'')"
proof -
  from assms obtain ts ts' where
    it: "py_iter (case dict_get spec ''transform'' of None \<Rightarrow> JList [] | Some v \<Rightarrow> v) = Inr ts"
    and loop: "update_transforms cols e e ts = Inr (e', ts')"
    and spec': "spec' = (if filter truthy ts' = [] then dict_del spec ''transform''
                         else dict_set spec ''transform'' (JList (filter truthy ts')))"
    by (rule update_spec_result)
  have kept: "filter truthy ts' \<noteq> [] \<longleftrightarrow> (\<exists>d. JDict d \<in> set ts' \<and> d \<noteq> [])"
  proof
    assume "filter truthy ts' \<noteq> []"
    then obtain t where t: "t \<in> set ts'" "truthy t"
      by (auto simp: filter_empty_conv)
    from update_transforms_dicts [OF loop t(1)] obtain d where "t = JDict d" by blast
    with t show "\<exists>d. JDict d \<in> set ts' \<and> d \<noteq> []" by auto
  next
    assume "\<exists>d. JDict d \<in> set ts' \<and> d \<noteq> []"
    then obtain d where d: "JDict d \<in> set ts'" "d \<noteq> []" by blast
    from d(2) have "truthy (JDict d)" by simp
    with d(1) have "\<exists>t\<in>set ts'. truthy t" by blast
    then show "filter truthy ts' \<noteq> []" by (simp add: filter_empty_conv)
  qed
  have has: "dict_contains spec' ''transform'' \<longleftrightarrow> filter truthy ts' \<noteq> []"
    by (simp add: spec' dict_contains_set dict_contains_del)
  have val: "dict_contains spec' ''transform'' \<longrightarrow>
               dict_get spec' ''transform'' = Some (JList (filter truthy ts'))"
    using has by (simp add: spec' dict_get_set)
  have none: "(\<forall>t\<in>set ts'. t = JDict []) \<longrightarrow> \<not> dict_contains spec' ''transform''"
    using has kept by auto
  from it loop has kept val none show ?thesis by blast
qed

theorem transform_key_iff_entry_left_witness:
  "update_spec (\<lambda>_. [''a'']) (Table ''t'')
     [(''transform'', JList [JDict [(''filter'', JDict [(''field'', JStr ''a''), (''lte'', JNum 3)])]]),
      (''mark'', JStr ''bar'')]
   = Inr (Filter (Table ''t'') [Compare LE (GetItem (Table ''t'') (JStr ''a'')) (JNum 3)],
          [(''mark'', JStr ''bar'')])
   \<and> \<not> dict_contains [(''mark'', JStr ''bar'')] ''transform''"
proof -
  have run: "update_spec (\<lambda>_. [''a'']) (Table ''t'')
     [(''transform'', JList [JDict [(''filter'', JDict [(''field'', JStr ''a''), (''lte'', JNum 3)])]]),
      (''mark'', JStr ''bar'')]
   = Inr (Filter (Table ''t'') [Compare LE (GetItem (Table ''t'') (JStr ''a'')) (JNum 3)],
          [(''mark'', JStr ''bar'')])"
    by code_simp
  from transform_key_iff_entry_left [OF run] obtain ts ts' where
    it: "py_iter (case dict_get
            [(''transform'', JList [JDict [(''filter'', JDict [(''field'', JStr ''a''), (''lte'', JNum 3)])]]),
             (''mark'', JStr ''bar'')] ''transform'' of None \<Rightarrow> JList [] | Some v \<Rightarrow> v) = Inr ts"
    and loop: "update_transforms (\<lambda>_. [''a'']) (Table ''t'') (Table ''t'') ts
               = Inr (Filter (Table ''t'') [Compare LE (GetItem (Table ''t'') (JStr ''a'')) (JNum 3)], ts')"
    and none: "(\<forall>t\<in>set ts'. t = JDict []) \<longrightarrow> \<not> dict_contains [(''mark'', JStr ''bar'')] ''transform''"
    by blast
  from it have ts: "ts = [JDict [(''filter'', JDict [(''field'', JStr ''a''), (''lte'', JNum 3)])]]"
    by (simp add: dict_get_def)
  have "update_transforms (\<lambda>_. [''a'']) (Table ''t'') (Table ''t'')
          [JDict [(''filter'', JDict [(''field'', JStr ''a''), (''lte'', JNum 3)])]]
        = Inr (Filter (Table ''t'') [Compare LE (GetItem (Table ''t'') (JStr ''a'')) (JNum 3)], [JDict []])"
    by code_simp
  with loop ts have "ts' = [JDict []]" by simp
  with none have "\<not> dict_contains [(''mark'', JStr ''bar'')] ''transform''" by simp
  with run show ?thesis by simp
qed

section \<open>A groupby on a column that is not there\<close>

text \<open>
  C3. When the \<^verbatim>\<open>groupby\<close> list of a transform has a field that is not among the columns
  of the expression, the loop body puts the \<^verbatim>\<open>groupby\<close> key back and goes on to the next
  transform: the transform has the same value under every key as before (so its
  \<^verbatim>\<open>aggregate\<close> and \<^verbatim>\<open>filter\<close> are still there and it is not empty), the expression is
  the one the body was given, and the loop carries on from that expression.
\<close>

theorem groupby_missing_column_skips_transform:
  assumes "dict_get t ''groupby'' = Some (JList fs)"
    and "\<exists>field\<in>set fs. \<not> in_columns field (cols e)"
  shows "\<exists>t'. update_transform cols original e (JDict t) = Inr (e, JDict t')
           \<and> (\<forall>k. dict_get t' k = dict_get t k)
           \<and> truthy (JDict t')
           \<and> update_transforms cols original e (JDict t # ts) =
               (case update_transforms cols original e ts of
                  Inl err \<Rightarrow> Inl err
                | Inr (e', ts') \<Rightarrow> Inr (e', JDict t' # ts'))"
proof -
  let ?t' = "dict_set (dict_del t ''groupby'') ''groupby'' (JList fs)"
  from assms(2) have ne: "fs \<noteq> []" and missing: "\<not> list_all (\<lambda>field. in_columns field (cols e)) fs"
    by (auto simp: list_all_iff)
  have g: "apply_groupby cols e (JList fs) = Inr None"
    using ne missing by (simp add: apply_groupby_def)
  have step: "update_transform cols original e (JDict t) = Inr (e, JDict ?t')"
    using assms(1) g by (simp add: update_transform_def dict_pop_default_def)
  have same: "\<forall>k. dict_get ?t' k = dict_get t k"
    using assms(1) by (simp add: dict_get_set dict_get_del)
  have "truthy (JDict ?t')"
    by (simp add: dict_set_nonempty)
  moreover have "update_transforms cols original e (JDict t # ts) =
               (case update_transforms cols original e ts of
                  Inl err \<Rightarrow> Inl err
                | Inr (e', ts') \<Rightarrow> Inr (e', JDict ?t' # ts'))"
    using step by (simp split: sum.splits)
  ultimately show ?thesis using step same by blast
qed

theorem groupby_missing_column_skips_transform_witness:
  "update_transform (\<lambda>_. [''a'', ''g'']) (Table ''t'') (Table ''t'')
     (JDict [(''groupby'', JList [JStr ''g'', JStr ''m'']),
             (''aggregate'', JList [JDict [(''op'', JStr ''count''), (''as'', JStr ''n'')]])])
   = Inr (Table ''t'',
          JDict [(''aggregate'', JList [JDict [(''op'', JStr ''count''), (''as'', JStr ''n'')]]),
                 (''groupby'', JList [JStr ''g'', JStr ''m''])])"
proof -
  let ?t = "[(''groupby'', JList [JStr ''g'', JStr ''m'']),
             (''aggregate'', JList [JDict [(''op'', JStr ''count''), (''as'', JStr ''n'')]])]"
  have h1: "dict_get ?t ''groupby'' = Some (JList [JStr ''g'', JStr ''m''])"
    by (simp add: dict_get_def)
  have h2: "\<exists>field\<in>set [JStr ''g'', JStr ''m'']. \<not> in_columns field ((\<lambda>_. [''a'', ''g'']) (Table ''t''))"
    by simp
  from groupby_missing_column_skips_transform [OF h1 h2, where original = "Table ''t''" and ts = "[]"]
  obtain t' where "update_transform (\<lambda>_. [''a'', ''g'']) (Table ''t'') (Table ''t'') (JDict ?t)
                   = Inr (Table ''t'', JDict t')"
    by blast
  moreover have "update_transform (\<lambda>_. [''a'', ''g'']) (Table ''t'') (Table ''t'') (JDict ?t)
   = Inr (Table ''t'',
          JDict [(''aggregate'', JList [JDict [(''op'', JStr ''count''), (''as'', JStr ''n'')]]),
                 (''groupby'', JList [JStr ''g'', JStr ''m''])])"
    by code_simp
  ultimately show ?thesis by simp
qed

section \<open>A filter with no field\<close>

text \<open>
  C2. The fallback that puts a filter back is reached only after \<^verbatim>\<open>filter_['field']\<close>
  has been read. A selection filter is a dict with no \<^verbatim>\<open>field\<close> key, and
  \<^verbatim>\<open>update_spec\<close> raises \<^verbatim>\<open>KeyError\<close> on it; an expression filter is a string, and
  \<^verbatim>\<open>update_spec\<close> raises \<^verbatim>\<open>TypeError\<close> on it. A field predicate that no rule covers
  (here \<^verbatim>\<open>oneOf\<close>) does reach the fallback and is left in the spec.
\<close>

theorem filter_without_field_raises:
  "update_spec (\<lambda>_. [''a'']) (Table ''t'')
     [(''mark'', JStr ''bar''),
      (''transform'', JList [JDict [(''filter'', JDict [(''selection'', JStr ''brush'')])]])]
   = Inl KeyError
   \<and> update_spec (\<lambda>_. [''a'']) (Table ''t'')
     [(''mark'', JStr ''bar''),
      (''transform'', JList [JDict [(''filter'', JStr ''datum.a > 3'')]])]
   = Inl TypeError
   \<and> update_spec (\<lambda>_. [''a'']) (Table ''t'')
     [(''mark'', JStr ''bar''),
      (''transform'', JList [JDict [(''filter'', JDict [(''field'', JStr ''a''), (''oneOf'', JList [JNum 1])])]])]
   = Inr (Table ''t'',
     [(''mark'', JStr ''bar''),
      (''transform'', JList [JDict [(''filter'', JDict [(''field'', JStr ''a''), (''oneOf'', JList [JNum 1])])]])])"
  by code_simp

section \<open>Looking an expression up\<close>

lemma pop_name_globals:
  "next_i (snd (pop_name s name)) = next_i s
   \<and> (\<forall>k. dict_contains (name_to_ibis (snd (pop_name s name))) k \<longrightarrow> dict_contains (name_to_ibis s) k)"
  by (cases name) (auto simp: pop_name_def dict_contains_del split: option.splits)

lemma retrieve_expr_globals:
  "next_i (snd (retrieve_expr s spec)) = next_i s
   \<and> (\<forall>k. dict_contains (name_to_ibis (snd (retrieve_expr s spec))) k \<longrightarrow> dict_contains (name_to_ibis s) k)"
proof -
  let ?sub = "case dict_get spec ''spec'' of None \<Rightarrow> JDict spec | Some sub \<Rightarrow> sub"
  show ?thesis
  proof (cases "py_getitem ?sub ''data''")
    case (Inl err)
    then have "snd (retrieve_expr s spec) = s"
      by (cases err) (simp_all add: retrieve_expr_def)
    then show ?thesis by simp
  next
    case data: (Inr data)
    show ?thesis
    proof (cases "py_getitem data ''name''")
      case (Inl err)
      with data have "snd (retrieve_expr s spec) = s"
        by (cases err) (simp_all add: retrieve_expr_def)
      then show ?thesis by simp
    next
      case (Inr name)
      with data have "retrieve_expr s spec = pop_name s name"
        by (simp add: retrieve_expr_def)
      then show ?thesis using pop_name_globals [of s name] by simp
    qed
  qed
qed

text \<open>
  C8. \<^verbatim>\<open>retrieve_expr\<close> reads \<^verbatim>\<open>spec['data']['name']\<close>, from \<^verbatim>\<open>spec['spec']\<close> when the
  spec has a \<^verbatim>\<open>spec\<close> key. When the name is in the dictionary, the stored expression is
  returned and the entry removed, and a second retrieval with the same spec raises
  \<^verbatim>\<open>RuntimeError\<close>; when it is not, \<^verbatim>\<open>RuntimeError\<close> is raised and the state is as it was.
\<close>

theorem retrieve_expr_pops_or_raises:
  assumes "py_getitem (case dict_get spec ''spec'' of None \<Rightarrow> JDict spec | Some sub \<Rightarrow> sub) ''data''
           = Inr data"
    and "py_getitem data ''name'' = Inr (JStr n)"
  shows "(\<forall>e. dict_get (name_to_ibis s) n = Some e \<longrightarrow>
            retrieve_expr s spec = (Inr e, s\<lparr>name_to_ibis := dict_del (name_to_ibis s) n\<rparr>)
            \<and> retrieve_expr (s\<lparr>name_to_ibis := dict_del (name_to_ibis s) n\<rparr>) spec
                = (Inl RuntimeError, s\<lparr>name_to_ibis := dict_del (name_to_ibis s) n\<rparr>))
       \<and> (dict_get (name_to_ibis s) n = None \<longrightarrow> retrieve_expr s spec = (Inl RuntimeError, s))"
proof -
  have eq: "retrieve_expr s' spec = pop_name s' (JStr n)" for s'
    using assms by (simp add: retrieve_expr_def)
  show ?thesis
    by (simp add: eq pop_name_def dict_get_del)
qed

theorem retrieve_expr_pops_or_raises_witness:
  "retrieve_expr \<lparr>next_i = 1, name_to_ibis = [(''ibis_0'', Table ''t'')], displays = [], comms = []\<rparr>
     [(''spec'', JDict [(''data'', JDict [(''name'', JStr ''ibis_0'')])])]
   = (Inr (Table ''t''), \<lparr>next_i = 1, name_to_ibis = [], displays = [], comms = []\<rparr>)
   \<and> retrieve_expr \<lparr>next_i = 1, name_to_ibis = [], displays = [], comms = []\<rparr>
     [(''spec'', JDict [(''data'', JDict [(''name'', JStr ''ibis_0'')])])]
   = (Inl RuntimeError, \<lparr>next_i = 1, name_to_ibis = [], displays = [], comms = []\<rparr>)"
proof -
  let ?spec = "[(''spec'', JDict [(''data'', JDict [(''name'', JStr ''ibis_0'')])])]"
  let ?s = "\<lparr>next_i = 1, name_to_ibis = [(''ibis_0'', Table ''t'')], displays = [], comms = []\<rparr>"
  have h1: "py_getitem (case dict_get ?spec ''spec'' of None \<Rightarrow> JDict ?spec | Some sub \<Rightarrow> sub) ''data''
            = Inr (JDict [(''name'', JStr ''ibis_0'')])"
    by (simp add: dict_get_def)
  have h2: "py_getitem (JDict [(''name'', JStr ''ibis_0'')]) ''name'' = Inr (JStr ''ibis_0'')"
    by (simp add: dict_get_def)
  have h3: "dict_get (name_to_ibis ?s) ''ibis_0'' = Some (Table ''t'')"
    by (simp add: dict_get_def)
  from retrieve_expr_pops_or_raises [OF h1 h2, of ?s] h3
  show ?thesis
    by (simp add: dict_del_def)
qed

section \<open>Names are fresh\<close>

lemma nat_of_digits_snoc: "nat_of_digits (cs @ [c]) = 10 * nat_of_digits cs + (of_char c - 48)"
  by (simp add: nat_of_digits_def)

lemma nat_of_digit_char: "d < 10 \<Longrightarrow> of_char (digit_char d) - 48 = d"
  by (simp add: digit_char_def)

lemma nat_of_digits_str_nat: "nat_of_digits (str_nat n) = n"
proof (induction n rule: str_nat.induct)
  case (1 n)
  show ?case
  proof (cases "n < 10")
    case True
    then have "str_nat n = [digit_char n]"
      by (simp add: str_nat.simps [of n])
    with True show ?thesis
      using nat_of_digits_snoc [of "[]" "digit_char n"]
      by (simp add: nat_of_digit_char nat_of_digits_def)
  next
    case False
    then have "str_nat n = str_nat (n div 10) @ [digit_char (n mod 10)]"
      by (simp add: str_nat.simps [of n])
    moreover have "nat_of_digits (str_nat (n div 10)) = n div 10"
      using False by (rule "1.IH")
    ultimately show ?thesis
      by (simp add: nat_of_digits_snoc nat_of_digit_char)
  qed
qed

lemma str_nat_inj: "str_nat m = str_nat n \<Longrightarrow> m = n"
  by (metis nat_of_digits_str_nat)

lemma ibis_transformation_names_below:
  assumes "names_below s"
  shows "names_below (snd (ibis_transformation s data))"
proof (cases data)
  case (PyDataFrame df)
  show ?thesis
  proof (cases "df_ibis df")
    case None
    with PyDataFrame have "snd (ibis_transformation s data) = s\<lparr>next_i := next_i s + 1\<rparr>"
      by (simp add: ibis_transformation_def Let_def)
    with assms show ?thesis
      by (auto simp: names_below_def intro: less_SucI)
  next
    case (Some e)
    with PyDataFrame have "snd (ibis_transformation s data) =
        s\<lparr>next_i := next_i s + 1,
           name_to_ibis := dict_set (name_to_ibis s) (''ibis_'' @ str_nat (next_i s)) e\<rparr>"
      by (simp add: ibis_transformation_def Let_def)
    with assms show ?thesis
      by (auto simp: names_below_def dict_contains_set intro: less_SucI)
  qed
qed (use assms in \<open>simp_all add: ibis_transformation_def\<close>)

lemma retrieve_expr_names_below:
  "names_below s \<Longrightarrow> names_below (snd (retrieve_expr s spec))"
  using retrieve_expr_globals [of s spec] by (auto simp: names_below_def)

lemma ibis_renderer_globals:
  "next_i (snd (ibis_renderer api s spec type extract compile)) = next_i (snd (retrieve_expr s spec))
   \<and> name_to_ibis (snd (ibis_renderer api s spec type extract compile))
       = name_to_ibis (snd (retrieve_expr s spec))"
  by (auto simp: ibis_renderer_def extract_spec_def Let_def
           split: prod.splits sum.splits option.splits)

lemma recv_globals:
  "next_i (snd (recv api s n payload)) = next_i s
   \<and> name_to_ibis (snd (recv api s n payload)) = name_to_ibis s"
  by (auto simp: recv_def split: option.splits sum.splits)

lemma reachable_names_below: "reachable api s \<Longrightarrow> names_below s"
proof (induction rule: reachable.induct)
  case reach_init
  show ?case by (simp add: names_below_def init_kernel_def dict_contains_def dict_get_def)
next
  case (reach_transformation s data)
  then show ?case by (simp add: ibis_transformation_names_below)
next
  case (reach_retrieve s spec)
  then show ?case by (simp add: retrieve_expr_names_below)
next
  case (reach_renderer s spec ty ex co)
  then have "names_below (snd (retrieve_expr s spec))"
    by (simp add: retrieve_expr_names_below)
  then show ?case
    using ibis_renderer_globals [of api s spec ty ex co]
    by (simp add: names_below_def)
next
  case (reach_recv s n payload)
  then show ?case
    using recv_globals [of api s n payload] by (simp add: names_below_def)
qed

text \<open>
  C4. In every state the module can reach, a call of \<^verbatim>\<open>ibis_transformation\<close> on a
  dataframe that carries an expression returns exactly \<^verbatim>\<open>{"name": "ibis_<i>"}\<close> for the
  present value \<^verbatim>\<open>i\<close> of the counter, and the counter goes up by one. The name differs from
  the name of every smaller counter value and is not yet a key of the dictionary;
  afterwards it maps to the expression, and every other key maps to what it did before.
\<close>

theorem ibis_transformation_fresh_name:
  assumes "reachable api s" and "df_ibis df = Some e"
  shows "\<exists>s'. ibis_transformation s (PyDataFrame df)
               = (Inr (JDict [(''name'', JStr (''ibis_'' @ str_nat (next_i s)))]), s')
           \<and> next_i s' = next_i s + 1
           \<and> (\<forall>j<next_i s. ''ibis_'' @ str_nat j \<noteq> ''ibis_'' @ str_nat (next_i s))
           \<and> dict_get (name_to_ibis s) (''ibis_'' @ str_nat (next_i s)) = None
           \<and> dict_get (name_to_ibis s') (''ibis_'' @ str_nat (next_i s)) = Some e
           \<and> (\<forall>k. k \<noteq> ''ibis_'' @ str_nat (next_i s)
                  \<longrightarrow> dict_get (name_to_ibis s') k = dict_get (name_to_ibis s) k)"
proof -
  let ?name = "''ibis_'' @ str_nat (next_i s)"
  let ?s' = "s\<lparr>next_i := next_i s + 1, name_to_ibis := dict_set (name_to_ibis s) ?name e\<rparr>"
  have run: "ibis_transformation s (PyDataFrame df) = (Inr (JDict [(''name'', JStr ?name)]), ?s')"
    using assms(2) by (simp add: ibis_transformation_def Let_def)
  have distinct: "\<forall>j<next_i s. ''ibis_'' @ str_nat j \<noteq> ?name"
  proof (intro allI impI)
    fix j
    assume "j < next_i s"
    then have "j \<noteq> next_i s" by simp
    then have "str_nat j \<noteq> str_nat (next_i s)"
      using str_nat_inj [of j "next_i s"] by blast
    then show "''ibis_'' @ str_nat j \<noteq> ?name" by simp
  qed
  have inv: "names_below s"
    using assms(1) by (rule reachable_names_below)
  have fresh: "dict_get (name_to_ibis s) ?name = None"
  proof (rule ccontr)
    assume "dict_get (name_to_ibis s) ?name \<noteq> None"
    then have "dict_contains (name_to_ibis s) ?name"
      by (simp add: dict_contains_def)
    with inv obtain j where "j < next_i s" and "?name = ''ibis_'' @ str_nat j"
      unfolding names_below_def by blast
    with distinct show False by metis
  qed
  have stored: "dict_get (name_to_ibis ?s') ?name = Some e"
    by (simp add: dict_get_set)
  have kept: "\<forall>k. k \<noteq> ?name \<longrightarrow> dict_get (name_to_ibis ?s') k = dict_get (name_to_ibis s) k"
    by (simp add: dict_get_set)
  have counter: "next_i ?s' = next_i s + 1" by simp
  show ?thesis
  proof (intro exI conjI)
    show "ibis_transformation s (PyDataFrame df) = (Inr (JDict [(''name'', JStr ?name)]), ?s')"
      by (rule run)
    show "next_i ?s' = next_i s + 1" by (rule counter)
    show "\<forall>j<next_i s. ''ibis_'' @ str_nat j \<noteq> ?name" by (rule distinct)
    show "dict_get (name_to_ibis s) ?name = None" by (rule fresh)
    show "dict_get (name_to_ibis ?s') ?name = Some e" by (rule stored)
    show "\<forall>k. k \<noteq> ?name \<longrightarrow> dict_get (name_to_ibis ?s') k = dict_get (name_to_ibis s) k"
      by (rule kept)
  qed
qed

theorem ibis_transformation_fresh_name_witness:
  "ibis_transformation
     (snd (ibis_transformation init_kernel
        (PyDataFrame \<lparr>df_columns = [], df_dtypes = [], df_rows = [], df_ibis = Some (Table ''a'')\<rparr>)))
     (PyDataFrame \<lparr>df_columns = [], df_dtypes = [], df_rows = [], df_ibis = Some (Table ''b'')\<rparr>)
   = (Inr (JDict [(''name'', JStr ''ibis_1'')]),
      \<lparr>next_i = 2, name_to_ibis = [(''ibis_0'', Table ''a''), (''ibis_1'', Table ''b'')],
       displays = [], comms = []\<rparr>)"
proof -
  let ?a = "PyDataFrame \<lparr>df_columns = [], df_dtypes = [], df_rows = [], df_ibis = Some (Table ''a'')\<rparr>"
  let ?b = "\<lparr>df_columns = [], df_dtypes = [], df_rows = [], df_ibis = Some (Table ''b'')\<rparr>"
  let ?api = "\<lparr>api_columns = \<lambda>_. [], api_schema = \<lambda>_. [], api_compile = \<lambda>_. [],
               api_execute = \<lambda>_. JNull,
               api_client = \<lambda>_. \<lparr>host = [], protocol = [], port = [], user = [], db_name = [],
                                   password = []\<rparr>\<rparr>"
  have s1: "snd (ibis_transformation init_kernel ?a)
            = \<lparr>next_i = 1, name_to_ibis = [(''ibis_0'', Table ''a'')], displays = [], comms = []\<rparr>"
    by code_simp
  have r: "reachable ?api (snd (ibis_transformation init_kernel ?a))"
    by (intro reachable.intros)
  have h: "df_ibis ?b = Some (Table ''b'')" by simp
  from ibis_transformation_fresh_name [OF r h] obtain s' where
    "ibis_transformation (snd (ibis_transformation init_kernel ?a)) (PyDataFrame ?b)
       = (Inr (JDict [(''name'', JStr (''ibis_'' @ str_nat (next_i (snd (ibis_transformation init_kernel ?a)))))]), s')"
    by blast
  moreover have "ibis_transformation (snd (ibis_transformation init_kernel ?a)) (PyDataFrame ?b)
    = (Inr (JDict [(''name'', JStr ''ibis_1'')]),
      \<lparr>next_i = 2, name_to_ibis = [(''ibis_0'', Table ''a''), (''ibis_1'', Table ''b'')],
       displays = [], comms = []\<rparr>)"
    by code_simp
  ultimately show ?thesis by simp
qed

section \<open>The rewrite rules\<close>










section \<open>Rendering through the frontend\<close>




section \<open>Extra positional arguments of the chart constructor\<close>

lemma updated_chart_init_no_extra_args:
  "updated_chart_init api self (PyExpr e) [] kwargs
     = \<lparr>pos_args = [self],
        kw_args = (''data'', PyDataFrame \<lparr>df_columns = api_columns api e, df_dtypes = api_schema api e,
                                          df_rows = [], df_ibis = Some e\<rparr>) # kwargs\<rparr>"
  "\<forall>e. data \<noteq> PyExpr e \<Longrightarrow>
     updated_chart_init api self data [] kwargs
       = \<lparr>pos_args = [self], kw_args = (''data'', data) # kwargs\<rparr>"
  by (cases data;
      simp add: updated_chart_init_def empty_df_def schema_apply_to_def pandas_DataFrame_def)+

text \<open>
  C5. The patched constructor passes \<^verbatim>\<open>data\<close> on by keyword and the other positional
  arguments by position. Called as \<^verbatim>\<open>Chart(df, encoding)\<close>, it hands the original
  constructor \<^verbatim>\<open>encoding\<close> as the first argument after \<^verbatim>\<open>self\<close> together with the
  keyword \<^verbatim>\<open>data\<close>. A constructor whose first parameter after \<^verbatim>\<open>self\<close> is \<^verbatim>\<open>data\<close>, as
  that of \<^verbatim>\<open>altair.Chart\<close> is, binds the call it is given directly and raises
  \<^verbatim>\<open>TypeError\<close> on the forwarded one.
\<close>

theorem extra_positional_argument_misplaced:
  "patched_chart_init
     \<lparr>api_columns = \<lambda>_. [], api_schema = \<lambda>_. [], api_compile = \<lambda>_. [],
      api_execute = \<lambda>_. JNull,
      api_client = \<lambda>_. \<lparr>host = [], protocol = [], port = [], user = [], db_name = [],
                          password = []\<rparr>\<rparr>
     \<lparr>pos_args = [PyOther ''chart'',
                  PyDataFrame \<lparr>df_columns = [''a''], df_dtypes = [(''a'', ''int64'')],
                               df_rows = [[JNum 1]], df_ibis = None\<rparr>,
                  PyOther ''encoding''],
      kw_args = []\<rparr>
   = Inr \<lparr>pos_args = [PyOther ''chart'', PyOther ''encoding''],
          kw_args = [(''data'', PyDataFrame \<lparr>df_columns = [''a''], df_dtypes = [(''a'', ''int64'')],
                                            df_rows = [[JNum 1]], df_ibis = None\<rparr>)]\<rparr>
   \<and> bind_call [''self'', ''data'', ''encoding'', ''mark'', ''width'', ''height'']
       \<lparr>pos_args = [PyOther ''chart'',
                  PyDataFrame \<lparr>df_columns = [''a''], df_dtypes = [(''a'', ''int64'')],
                               df_rows = [[JNum 1]], df_ibis = None\<rparr>,
                  PyOther ''encoding''],
        kw_args = []\<rparr>
     = Inr [(''self'', PyOther ''chart''),
            (''data'', PyDataFrame \<lparr>df_columns = [''a''], df_dtypes = [(''a'', ''int64'')],
                                    df_rows = [[JNum 1]], df_ibis = None\<rparr>),
            (''encoding'', PyOther ''encoding'')]
   \<and> bind_call [''self'', ''data'', ''encoding'', ''mark'', ''width'', ''height'']
       \<lparr>pos_args = [PyOther ''chart'', PyOther ''encoding''],
          kw_args = [(''data'', PyDataFrame \<lparr>df_columns = [''a''], df_dtypes = [(''a'', ''int64'')],
                                            df_rows = [[JNum 1]], df_ibis = None\<rparr>)]\<rparr>
     = Inl TypeError"
  by (simp add: patched_chart_init_def updated_chart_init_def bind_call_def dict_contains_def
        dict_get_def)

end
